theory Spec2Isabelle
  imports Complex_Main "HOL-Library.Log_Nat"
begin

section \<open>Data model\<close>

text \<open>
  The back end keeps three MongoDB collections that matter here: products, carts and
  orders. A collection is a list of documents; a query by \<open>_id\<close> or by a filter reads or
  updates the first document that matches, as \<open>findOne\<close>, \<open>findById\<close>, \<open>updateOne\<close> and
  \<open>findOneAndUpdate\<close> do.

  Quantities and stock levels are integers (\<open>int\<close>). Prices are JavaScript numbers, IEEE
  754 doubles, and every arithmetic operation on them rounds. Dates (\<open>paidAt\<close>,
  \<open>shippedAt\<close>, ...), images and log lines are left out: no operation below branches on
  them.
\<close>

subsection \<open>JavaScript numbers\<close>

text \<open>
  \<open>Finite r\<close> is the double whose exact value is the rational \<open>r\<close> (the two zeros are
  one value: nothing below divides by a variable). \<open>fl x\<close> is the double nearest to the
  rational \<open>x\<close>, ties to the even significand, with the subnormal range below
  \<open>2^-1022\<close> and overflow to an infinity. The sum, difference, product and quotient of two
  doubles are the exact result rounded by \<open>fl\<close>.
\<close>

datatype number = Finite rat | PosInf | NegInf | NaN

definition ilog2 :: "rat \<Rightarrow> int" where
  \<comment> \<open>for \<open>x \<noteq> 0\<close>, the \<open>e\<close> with \<open>2^e \<le> |x| < 2^(e+1)\<close>\<close>
  "ilog2 x = (let pq = quotient_of \<bar>x\<bar>; k = bitlen (fst pq) - bitlen (snd pq)
              in if \<bar>x\<bar> < 2 powi k then k - 1 else k)"

definition roundHalfEven :: "rat \<Rightarrow> int" where
  "roundHalfEven r = (let f = \<lfloor>r\<rfloor>; d = r - of_int f
                      in if d < 1 / 2 then f else if 1 / 2 < d then f + 1
                         else if even f then f else f + 1)"

definition fl :: "rat \<Rightarrow> number" where
  "fl x = (if x = 0 then Finite 0
           else let e = max (ilog2 x) (- 1022);
                    u = 2 powi (e - 52);
                    y = of_int (roundHalfEven (x / u)) * u
                in if 2 powi 1024 \<le> \<bar>y\<bar> then (if 0 < x then PosInf else NegInf)
                   else Finite y)"

definition n_neg :: "number \<Rightarrow> number" where
  "n_neg a = (case a of Finite x \<Rightarrow> Finite (- x) | PosInf \<Rightarrow> NegInf | NegInf \<Rightarrow> PosInf
              | NaN \<Rightarrow> NaN)"

definition n_add :: "number \<Rightarrow> number \<Rightarrow> number" where
  \<comment> \<open>\<open>a + b\<close>\<close>
  "n_add a b =
     (case a of
        NaN \<Rightarrow> NaN
      | Finite x \<Rightarrow> (case b of Finite y \<Rightarrow> fl (x + y) | _ \<Rightarrow> b)
      | PosInf \<Rightarrow> (case b of NaN \<Rightarrow> NaN | NegInf \<Rightarrow> NaN | _ \<Rightarrow> PosInf)
      | NegInf \<Rightarrow> (case b of NaN \<Rightarrow> NaN | PosInf \<Rightarrow> NaN | _ \<Rightarrow> NegInf))"

definition n_sub :: "number \<Rightarrow> number \<Rightarrow> number" where
  \<comment> \<open>\<open>a - b\<close>\<close>
  "n_sub a b = n_add a (n_neg b)"

definition n_mul :: "number \<Rightarrow> number \<Rightarrow> number" where
  \<comment> \<open>\<open>a * b\<close>\<close>
  "n_mul a b =
     (case a of
        NaN \<Rightarrow> NaN
      | Finite x \<Rightarrow>
          (case b of
             Finite y \<Rightarrow> fl (x * y)
           | NaN \<Rightarrow> NaN
           | PosInf \<Rightarrow> (if x = 0 then NaN else if 0 < x then PosInf else NegInf)
           | NegInf \<Rightarrow> (if x = 0 then NaN else if 0 < x then NegInf else PosInf))
      | PosInf \<Rightarrow>
          (case b of
             Finite y \<Rightarrow> (if y = 0 then NaN else if 0 < y then PosInf else NegInf)
           | NaN \<Rightarrow> NaN | PosInf \<Rightarrow> PosInf | NegInf \<Rightarrow> NegInf)
      | NegInf \<Rightarrow>
          (case b of
             Finite y \<Rightarrow> (if y = 0 then NaN else if 0 < y then NegInf else PosInf)
           | NaN \<Rightarrow> NaN | PosInf \<Rightarrow> NegInf | NegInf \<Rightarrow> PosInf))"

definition n_div100 :: "number \<Rightarrow> number" where
  \<comment> \<open>\<open>a / 100\<close>\<close>
  "n_div100 a = (case a of Finite x \<Rightarrow> fl (x / 100) | _ \<Rightarrow> a)"

definition n_less :: "number \<Rightarrow> number \<Rightarrow> bool" where
  \<comment> \<open>\<open>a < b\<close>; every comparison with \<open>NaN\<close> is false\<close>
  "n_less a b =
     (case a of
        NaN \<Rightarrow> False
      | Finite x \<Rightarrow> (case b of Finite y \<Rightarrow> x < y | PosInf \<Rightarrow> True | _ \<Rightarrow> False)
      | PosInf \<Rightarrow> False
      | NegInf \<Rightarrow> (case b of Finite y \<Rightarrow> True | PosInf \<Rightarrow> True | _ \<Rightarrow> False))"

definition of_quantity :: "int \<Rightarrow> number" where
  \<comment> \<open>an integer quantity as an operand of a product\<close>
  "of_quantity q = fl (of_int q)"

definition toFixed2 :: "number \<Rightarrow> number" where
  \<comment> \<open>\<open>parseFloat(x.toFixed(2))\<close>. \<open>toFixed\<close> takes the exact value of the double: the
      nearest multiple of 1/100 of the magnitude, the larger one on a tie, with the sign
      put back; from \<open>10^21\<close> on, and for a non-finite number, the string is that of the
      number itself. \<open>parseFloat\<close> rounds the decimal string to a double.\<close>
  "toFixed2 a =
     (case a of
        Finite x \<Rightarrow>
          if 10 ^ 21 \<le> \<bar>x\<bar> then a
          else if x < 0 then fl (- (of_int \<lfloor>(- x) * 100 + 1 / 2\<rfloor> / 100))
          else fl (of_int \<lfloor>x * 100 + 1 / 2\<rfloor> / 100)
      | _ \<Rightarrow> a)"

subsection \<open>Documents\<close>

type_synonym objectId = nat

record product =
  product_id :: objectId
  product_name :: string
  product_price :: number
  stock :: int

record cartItem =
  ci_product :: objectId
  ci_quantity :: int
  ci_size :: "string option"
  ci_color :: "string option"

record cart =
  cart_id :: objectId
  cart_user :: objectId
  cart_items :: "cartItem list"

record orderItem =
  oi_product :: objectId
  oi_name :: string
  oi_quantity :: int
  oi_price :: number
  oi_size :: "string option"
  oi_color :: "string option"

record discount =
  discount_code :: string
  discount_value :: number
  discount_type :: "string option"

record address =
  street :: string
  city :: string
  postalCode :: string
  country :: string
  phone :: "string option"

text \<open>
  The order document: the paths of \<open>orderSchema\<close> that the operations read or write.
  \<open>status\<close> is a string, as in the source: the payment service stores a value that is
  not one of the six of the schema's enumeration. The last three fields are not paths of
  the schema. They stand for what the stored MongoDB document holds under
  \<open>paymentStatus\<close>, \<open>paymentDetails.paymentIntentId\<close> and \<open>paymentDetails.amountPaid\<close>,
  the names that \<open>PaymentService\<close> uses: the schema is strict, so Mongoose drops them from
  every document it saves and from every update it sends.
\<close>

record order =
  order_id :: objectId
  order_user :: objectId
  items :: "orderItem list"
  shippingAddress :: "address option"
  paymentMethod :: string
  itemsPrice :: number
  taxPrice :: number
  shippingPrice :: number
  totalPrice :: number
  isPaid :: bool
  isDelivered :: bool
  status :: string
  order_notes :: "string option"
  order_discount :: "discount option"
  paymentStatus :: "string option"
  paymentIntentId :: "string option"
  amountPaid :: "int option"

record db =
  products :: "product list"
  orders :: "order list"
  carts :: "cart list"

text \<open>
  Errors are values. \<open>EmptyCart\<close> is \<open>ErrorResponse('Panier vide', 400)\<close>;
  \<open>InsufficientStock name available requested\<close> is the \<open>ErrorResponse\<close> of status 400
  whose message is built from these three; \<open>InvalidStatus\<close> is
  \<open>ErrorResponse('Statut invalide', 400)\<close>; \<open>OrderNotFound\<close> is
  \<open>ErrorResponse('Commande non trouvee', 404)\<close>; \<open>InvalidOperation\<close>, \<open>InvalidQuantity\<close>
  and \<open>ProductNotFound\<close> are the two 400 responses and the 404 response of the stock
  update; \<open>TypeError\<close> is what reading a field of \<open>null\<close> or calling \<open>undefined\<close>
  throws; \<open>ValidationError\<close> is what Mongoose's schema validation throws;
  \<open>DocumentNotFoundError\<close> is what \<open>save\<close> throws when the document is no longer
  stored. The last four are plain \<open>new Error(msg)\<close>: \<open>AlreadyShipped\<close> is thrown by
  \<open>cancelOrder\<close> ("Impossible d'annuler une commande deja expediee"), \<open>NotPaid\<close> and
  \<open>AlreadyRefunded\<close> by \<open>requestRefund\<close>, \<open>OrphanPayment\<close> by \<open>handlePaymentSuccess\<close>
  ("Commande non trouvee pour ce paiement").
\<close>

datatype error =
    EmptyCart
  | InsufficientStock string int int
  | InvalidStatus
  | OrderNotFound
  | InvalidOperation
  | InvalidQuantity
  | ProductNotFound
  | TypeError
  | ValidationError
  | DocumentNotFoundError
  | AlreadyShipped
  | NotPaid
  | AlreadyRefunded
  | OrphanPayment

section \<open>The logger\<close>

text \<open>
  The logger module exports the object \<open>{ logger, httpLogger, sqlLogger, requestLogger,
  formatObject, stream }\<close>. The controllers and the payment service bind the whole
  export, \<open>const logger = require('../utils/logger')\<close>, and call \<open>logger.info\<close>,
  \<open>logger.warn\<close> and \<open>logger.error\<close> on it. The export has no such members: each of
  these calls throws a \<open>TypeError\<close>. In a controller the error goes to \<open>asyncHandler\<close>,
  which answers with it; what was written before the call stays written.
\<close>

definition logger_info :: "error + unit" where
  "logger_info = Inl TypeError"

definition logger_warn :: "error + unit" where
  "logger_warn = Inl TypeError"

definition logger_error :: "error + unit" where
  "logger_error = Inl TypeError"

section \<open>Product stock\<close>

definition findProduct :: "objectId \<Rightarrow> product list \<Rightarrow> product option" where
  \<comment> \<open>\<open>Product.findById(i)\<close>\<close>
  "findProduct i ps = find (\<lambda>p. product_id p = i) ps"

definition stockOf :: "db \<Rightarrow> objectId \<Rightarrow> int option" where
  "stockOf d i = map_option stock (findProduct i (products d))"

fun updateOne_inc :: "objectId \<Rightarrow> int \<Rightarrow> product list \<Rightarrow> product list" where
  \<comment> \<open>\<open>updateOne: { filter: { _id: i }, update: { $inc: { stock: n } } }\<close>: the first
      product with this id gets \<open>n\<close> added to its stock; without a match nothing changes.
      No schema validator runs on an update.\<close>
  "updateOne_inc i n [] = []"
| "updateOne_inc i n (p # ps) =
     (if product_id p = i then p\<lparr>stock := stock p + n\<rparr> # ps
      else p # updateOne_inc i n ps)"

fun updateOne_set :: "objectId \<Rightarrow> int \<Rightarrow> product list \<Rightarrow> product list" where
  \<comment> \<open>the same with \<open>$set: { stock: n }\<close>\<close>
  "updateOne_set i n [] = []"
| "updateOne_set i n (p # ps) =
     (if product_id p = i then p\<lparr>stock := n\<rparr> # ps
      else p # updateOne_set i n ps)"

definition bulkWrite :: "(objectId \<times> int) list \<Rightarrow> product list \<Rightarrow> product list" where
  \<comment> \<open>\<open>Product.bulkWrite(bulkOps)\<close>: the operations run in order.\<close>
  "bulkWrite ops ps = foldl (\<lambda>acc (i, n). updateOne_inc i n acc) ps ops"

definition ordered :: "objectId \<Rightarrow> (objectId \<times> int) list \<Rightarrow> int" where
  \<comment> \<open>the total quantity that a list of (product, quantity) lines holds of product \<open>i\<close>\<close>
  "ordered i ls = sum_list (map snd (filter (\<lambda>l. fst l = i) ls))"

definition updateStock :: "string \<Rightarrow> int \<Rightarrow> objectId \<Rightarrow> db \<Rightarrow> (error + product) \<times> db" where
  \<comment> \<open>\<open>exports.updateStock\<close> of the admin product controller, with \<open>operation\<close> and
      \<open>quantity\<close> from the request body and \<open>i\<close> for \<open>req.params.id\<close>.
      \<open>findByIdAndUpdate\<close> runs no validator; the answer is built after \<open>logger.info\<close>.\<close>
  "updateStock operation quantity i d =
     (if operation \<notin> set [''increment'', ''decrement'', ''set''] then (Inl InvalidOperation, d)
      else if quantity < 0 then (Inl InvalidQuantity, d)
      else let ps = (if operation = ''increment'' then updateOne_inc i quantity (products d)
                     else if operation = ''decrement'' then updateOne_inc i (- quantity) (products d)
                     else updateOne_set i quantity (products d))
           in (case findProduct i ps of
                 None \<Rightarrow> (Inl ProductNotFound, d)
               | Some p \<Rightarrow>
                   (case logger_info of
                      Inl e \<Rightarrow> (Inl e, d\<lparr>products := ps\<rparr>)
                    | Inr _ \<Rightarrow> (Inr p, d\<lparr>products := ps\<rparr>))))"

section \<open>The order schema\<close>

subsection \<open>Validation\<close>

text \<open>
  What the schema asks of a new order document, path by path: a \<open>required\<close> string is
  not empty, \<open>min\<close> bounds a number from below (and \<open>NaN\<close> is not cast to a number), a
  custom validator runs on a value that is present. An item's \<open>size\<close> is required by a
  function that reads \<open>this.product?.sizes?.length\<close>; \<open>product\<close> is an id there, so the
  function never asks for it.
\<close>

definition isDigit :: "char \<Rightarrow> bool" where
  "isDigit c = (c \<in> set ''0123456789'')"

definition digits10 :: "string \<Rightarrow> bool" where
  "digits10 s = (length s = 10 \<and> list_all isDigit s)"

definition prefixed :: "nat \<Rightarrow> string \<Rightarrow> bool" where
  \<comment> \<open>\<open>k\<close> digits, then at most one of \<open>-\<close> and space, then ten digits to the end\<close>
  "prefixed k r =
     (k \<le> length r \<and> list_all isDigit (take k r) \<and>
      (digits10 (drop k r) \<or>
       (case drop k r of
          [] \<Rightarrow> False
        | c # t \<Rightarrow> (c = CHR ''-'' \<or> c = CHR '' '') \<and> digits10 t)))"

definition phoneValid :: "string \<Rightarrow> bool" where
  \<comment> \<open>\<open>/^(\+\d{1,3}[- ]?)?\d{10}$/.test(v)\<close>\<close>
  "phoneValid v =
     (digits10 v \<or>
      (case v of
         [] \<Rightarrow> False
       | c # r \<Rightarrow> c = CHR ''+'' \<and> (prefixed 1 r \<or> prefixed 2 r \<or> prefixed 3 r)))"

definition min0 :: "number \<Rightarrow> bool" where
  \<comment> \<open>\<open>min: [0, ...]\<close> on a number path\<close>
  "min0 a = (case a of Finite x \<Rightarrow> 0 \<le> x | PosInf \<Rightarrow> True | _ \<Rightarrow> False)"

definition validItem :: "orderItem \<Rightarrow> bool" where
  \<comment> \<open>\<open>orderItemSchema\<close>\<close>
  "validItem item = (oi_name item \<noteq> [] \<and> 1 \<le> oi_quantity item \<and> min0 (oi_price item))"

definition validAddress :: "address \<Rightarrow> bool" where
  "validAddress a =
     (street a \<noteq> [] \<and> city a \<noteq> [] \<and> postalCode a \<noteq> [] \<and> country a \<noteq> [] \<and>
      (case phone a of None \<Rightarrow> True | Some v \<Rightarrow> phoneValid v))"

definition orderSchema :: "order \<Rightarrow> bool" where
  \<comment> \<open>the validation of a new document, on which every path is validated\<close>
  "orderSchema ord =
     (items ord \<noteq> [] \<and> list_all validItem (items ord) \<and>
      (case shippingAddress ord of None \<Rightarrow> False | Some a \<Rightarrow> validAddress a) \<and>
      paymentMethod ord \<in> set [''credit_card'', ''paypal'', ''bank_transfer'', ''cash_on_delivery''] \<and>
      itemsPrice ord \<noteq> NaN \<and> taxPrice ord \<noteq> NaN \<and> shippingPrice ord \<noteq> NaN \<and>
      totalPrice ord \<noteq> NaN \<and>
      status ord \<in> set [''pending'', ''processing'', ''shipped'', ''delivered'', ''cancelled'',
                       ''refunded''] \<and>
      (case order_discount ord of
         None \<Rightarrow> True
       | Some dc \<Rightarrow> (case discount_type dc of
                        None \<Rightarrow> True
                      | Some t \<Rightarrow> t \<in> set [''percentage'', ''fixed''])))"

subsection \<open>Hooks and methods\<close>

definition sumItems :: "orderItem list \<Rightarrow> number" where
  \<comment> \<open>\<open>items.reduce((acc, item) => acc + (item.price * item.quantity), 0)\<close>\<close>
  "sumItems its =
     foldl (\<lambda>acc item. n_add acc (n_mul (oi_price item) (of_quantity (oi_quantity item))))
           (Finite 0) its"

definition fixedDiscount :: "order \<Rightarrow> number" where
  \<comment> \<open>\<open>this.discount?.type === 'fixed' ? this.discount.value : 0\<close>\<close>
  "fixedDiscount ord =
     (case order_discount ord of
        None \<Rightarrow> Finite 0
      | Some dc \<Rightarrow> if discount_type dc = Some ''fixed'' then discount_value dc else Finite 0)"

definition percentageDiscount :: "order \<Rightarrow> number" where
  \<comment> \<open>\<open>this.discount?.type === 'percentage' ? this.itemsPrice * (this.discount.value / 100) : 0\<close>,
      read after \<open>itemsPrice\<close> has been recomputed\<close>
  "percentageDiscount ord =
     (case order_discount ord of
        None \<Rightarrow> Finite 0
      | Some dc \<Rightarrow>
          if discount_type dc = Some ''percentage''
          then n_mul (sumItems (items ord)) (n_div100 (discount_value dc)) else Finite 0)"

definition pre_save :: "bool \<Rightarrow> bool \<Rightarrow> order \<Rightarrow> order" where
  \<comment> \<open>\<open>orderSchema.pre('save')\<close>. The two flags are \<open>this.isModified('isPaid')\<close> and
      \<open>this.isModified('isDelivered')\<close>.\<close>
  "pre_save modPaid modDelivered ord =
     (let ip = sumItems (items ord);
          tp = toFixed2 (n_mul ip (fl (2 / 10)));
          sp = (if n_less (Finite 100) ip then Finite 0 else Finite 10);
          tot = toFixed2 (n_sub (n_sub (n_add (n_add ip tp) sp) (fixedDiscount ord))
                                (percentageDiscount ord));
          o1 = ord\<lparr>itemsPrice := ip, taxPrice := tp, shippingPrice := sp, totalPrice := tot\<rparr>;
          o2 = (if modPaid \<and> isPaid o1 then o1\<lparr>status := ''processing''\<rparr> else o1);
          o3 = (if modDelivered \<and> isDelivered o2 then o2\<lparr>status := ''delivered''\<rparr> else o2)
      in o3)"

text \<open>
  On a stored document \<open>save\<close> validates the paths that are required or modified; whether
  the document passes is the parameter \<open>valid\<close> of every operation that saves one.
  Validation runs before the schema's own \<open>pre('save')\<close> hook. A failed validation
  throws before anything is written.
\<close>

fun replaceOrder :: "order \<Rightarrow> order list \<Rightarrow> order list option" where
  \<comment> \<open>the write of \<open>save()\<close> on a stored document: the first order with the same id is
      replaced; \<open>None\<close> when there is none\<close>
  "replaceOrder ord [] = None"
| "replaceOrder ord (x # xs) =
     (if order_id x = order_id ord then Some (ord # xs)
      else map_option ((#) x) (replaceOrder ord xs))"

definition save :: "(order \<Rightarrow> bool) \<Rightarrow> bool \<Rightarrow> bool \<Rightarrow> order \<Rightarrow> db \<Rightarrow> (error + order) \<times> db" where
  \<comment> \<open>\<open>await this.save()\<close> on an order that was loaded from the collection\<close>
  "save valid modPaid modDelivered ord d =
     (if \<not> valid ord then (Inl ValidationError, d)
      else let ord' = pre_save modPaid modDelivered ord
           in case replaceOrder ord' (orders d) of
                None \<Rightarrow> (Inl DocumentNotFoundError, d)
              | Some os \<Rightarrow> (Inr ord', d\<lparr>orders := os\<rparr>))"

definition Order_create :: "order \<Rightarrow> db \<Rightarrow> (error + order) \<times> db" where
  \<comment> \<open>\<open>Order.create(doc)\<close>: validate against the schema, run the \<open>pre('save')\<close> hook,
      insert. On a new document \<open>isPaid\<close> and \<open>isDelivered\<close> hold their default
      \<open>false\<close>, so the two status updates of the hook do not fire whatever \<open>isModified\<close>
      answers.\<close>
  "Order_create doc d =
     (if \<not> orderSchema doc then (Inl ValidationError, d)
      else let ord = pre_save False False doc
           in (Inr ord, d\<lparr>orders := orders d @ [ord]\<rparr>))"

section \<open>Checkout\<close>

fun validateStock :: "product list \<Rightarrow> cartItem list \<Rightarrow> error + (cartItem \<times> product) list" where
  \<comment> \<open>The loop "Validation du stock" over the populated cart. A line whose product is
      gone is populated with \<open>null\<close>, and \<open>item.product._id\<close> throws. The result of a
      loop that ends is the cart's lines, each with its product.\<close>
  "validateStock ps [] = Inr []"
| "validateStock ps (item # rest) =
     (case findProduct (ci_product item) ps of
        None \<Rightarrow> Inl TypeError
      | Some pr \<Rightarrow>
          if stock pr < ci_quantity item
          then Inl (InsufficientStock (product_name pr) (stock pr) (ci_quantity item))
          else (case validateStock ps rest of
                  Inl e \<Rightarrow> Inl e
                | Inr populated \<Rightarrow> Inr ((item, pr) # populated)))"

definition orderItemOf :: "cartItem \<times> product \<Rightarrow> orderItem" where
  "orderItemOf ip =
     \<lparr>oi_product = product_id (snd ip), oi_name = product_name (snd ip),
      oi_quantity = ci_quantity (fst ip), oi_price = product_price (snd ip),
      oi_size = ci_size (fst ip), oi_color = ci_color (fst ip)\<rparr>"

definition cartLines :: "cart \<Rightarrow> (objectId \<times> int) list" where
  "cartLines c = map (\<lambda>item. (ci_product item, ci_quantity item)) (cart_items c)"

definition findCart :: "objectId \<Rightarrow> cart list \<Rightarrow> cart option" where
  \<comment> \<open>\<open>Cart.findOne({ user })\<close>\<close>
  "findCart u cs = find (\<lambda>c. cart_user c = u) cs"

fun findByIdAndDelete :: "objectId \<Rightarrow> cart list \<Rightarrow> cart list" where
  \<comment> \<open>\<open>Cart.findByIdAndDelete(i)\<close>\<close>
  "findByIdAndDelete i [] = []"
| "findByIdAndDelete i (c # cs) =
     (if cart_id c = i then cs else c # findByIdAndDelete i cs)"

definition draftOrder :: "objectId \<Rightarrow> objectId \<Rightarrow> string \<Rightarrow> (cartItem \<times> product) list \<Rightarrow> order" where
  \<comment> \<open>The document that \<open>createOrder\<close> hands to \<open>Order.create\<close>: \<open>user\<close>, \<open>items\<close>,
      \<open>itemsPrice\<close>, \<open>taxPrice\<close>, \<open>totalPrice\<close> and \<open>paymentMethod\<close> as computed, every
      other path at its default. \<open>pickupMethod\<close> and \<open>deliveryAddress\<close> are not paths of
      the schema and are dropped; no \<open>shippingAddress\<close> is given.\<close>
  "draftOrder newId user pm populated =
     (let orderItems = map orderItemOf populated;
          ip = sumItems orderItems;
          tp = n_mul ip (fl (2 / 10));
          tot = n_add ip tp
      in \<lparr>order_id = newId, order_user = user, items = orderItems, shippingAddress = None,
          paymentMethod = pm, itemsPrice = ip, taxPrice = tp, shippingPrice = Finite 0,
          totalPrice = tot, isPaid = False, isDelivered = False, status = ''pending'',
          order_notes = None, order_discount = None, paymentStatus = None,
          paymentIntentId = None, amountPaid = None\<rparr>)"

definition createOrder :: "objectId \<Rightarrow> objectId \<Rightarrow> string \<Rightarrow> db \<Rightarrow> (error + order) \<times> db" where
  \<comment> \<open>\<open>exports.createOrder\<close>. \<open>newId\<close> is the \<open>_id\<close> that a new document would get,
      \<open>user\<close> is \<open>req.user.id\<close>, \<open>pm\<close> is \<open>req.body.paymentMethod\<close>.\<close>
  "createOrder newId user pm d =
     (case findCart user (carts d) of
        None \<Rightarrow> (Inl EmptyCart, d)
      | Some c \<Rightarrow>
          if cart_items c = [] then (Inl EmptyCart, d)
          else (case validateStock (products d) (cart_items c) of
                  Inl e \<Rightarrow> (Inl e, d)
                | Inr populated \<Rightarrow>
                    (case Order_create (draftOrder newId user pm populated) d of
                       (Inl e, _) \<Rightarrow> (Inl e, d)
                     | (Inr ord, d1) \<Rightarrow>
                         let bulkOps = map (\<lambda>item. (ci_product item, - ci_quantity item))
                                           (cart_items c);
                             d2 = d1\<lparr>products := bulkWrite bulkOps (products d1)\<rparr>;
                             d3 = d2\<lparr>carts := findByIdAndDelete (cart_id c) (carts d2)\<rparr>
                         in (case logger_info of
                               Inl e \<Rightarrow> (Inl e, d3)
                             | Inr _ \<Rightarrow> (Inr ord, d3)))))"

section \<open>Order administration\<close>

definition validStatuses :: "string list" where
  "validStatuses = [''processing'', ''shipped'', ''delivered'', ''cancelled'']"

definition findOrder :: "objectId \<Rightarrow> order list \<Rightarrow> order option" where
  \<comment> \<open>\<open>Order.findById(i)\<close>\<close>
  "findOrder i os = find (\<lambda>x. order_id x = i) os"

definition orderLines :: "order \<Rightarrow> (objectId \<times> int) list" where
  \<comment> \<open>\<open>order.items.map(item => ... { _id: item.product } ... { $inc: { stock: item.quantity } })\<close>\<close>
  "orderLines ord = map (\<lambda>item. (oi_product item, oi_quantity item)) (items ord)"

definition updateOrderStatus ::
    "(order \<Rightarrow> bool) \<Rightarrow> string \<Rightarrow> objectId \<Rightarrow> db \<Rightarrow> (error + order) \<times> db" where
  \<comment> \<open>\<open>exports.updateOrderStatus\<close>, with \<open>st\<close> for \<open>req.body.status\<close> and \<open>i\<close> for
      \<open>req.params.id\<close>. The stock is written before the order is saved, and the answer
      is built after \<open>logger.info\<close>.\<close>
  "updateOrderStatus valid st i d =
     (if st \<notin> set validStatuses then (Inl InvalidStatus, d)
      else (case findOrder i (orders d) of
              None \<Rightarrow> (Inl OrderNotFound, d)
            | Some ord \<Rightarrow>
                let d1 = (if st = ''cancelled''
                          then d\<lparr>products := bulkWrite (orderLines ord) (products d)\<rparr>
                          else d)
                in (case save valid False False (ord\<lparr>status := st\<rparr>) d1 of
                      (Inl e, d2) \<Rightarrow> (Inl e, d2)
                    | (Inr ord', d2) \<Rightarrow>
                        (case logger_info of
                           Inl e \<Rightarrow> (Inl e, d2)
                         | Inr _ \<Rightarrow> (Inr ord', d2)))))"

fun deleteOne :: "objectId \<Rightarrow> order list \<Rightarrow> order list" where
  \<comment> \<open>\<open>order.deleteOne()\<close>: the stored document with the order's id goes\<close>
  "deleteOne i [] = []"
| "deleteOne i (x # xs) = (if order_id x = i then xs else x # deleteOne i xs)"

definition deleteOrder :: "objectId \<Rightarrow> db \<Rightarrow> (error + unit) \<times> db" where
  \<comment> \<open>\<open>exports.deleteOrder\<close>\<close>
  "deleteOrder i d =
     (case findOrder i (orders d) of
        None \<Rightarrow> (Inl OrderNotFound, d)
      | Some ord \<Rightarrow>
          let d1 = d\<lparr>products := bulkWrite (orderLines ord) (products d)\<rparr>;
              d2 = d1\<lparr>orders := deleteOne (order_id ord) (orders d1)\<rparr>
          in (case logger_info of
                Inl e \<Rightarrow> (Inl e, d2)
              | Inr _ \<Rightarrow> (Inr (), d2)))"

definition pre_remove :: "order \<Rightarrow> db \<Rightarrow> db" where
  \<comment> \<open>\<open>orderSchema.pre('remove')\<close>. It is registered for the document function
      \<open>remove\<close>; \<open>deleteOrder\<close> calls \<open>deleteOne\<close>, whose middleware is registered
      under its own name, and no code of the repository calls \<open>remove\<close> on an order.\<close>
  "pre_remove ord d = d\<lparr>products := bulkWrite (orderLines ord) (products d)\<rparr>"

definition cancelOrder :: "(order \<Rightarrow> bool) \<Rightarrow> order \<Rightarrow> db \<Rightarrow> (error + order) \<times> db" where
  \<comment> \<open>\<open>orderSchema.methods.cancelOrder\<close>, \<open>ord\<close> being \<open>this\<close>\<close>
  "cancelOrder valid ord d =
     (if status ord = ''delivered'' \<or> status ord = ''shipped'' then (Inl AlreadyShipped, d)
      else save valid False False (ord\<lparr>status := ''cancelled''\<rparr>) d)"

definition requestRefund ::
    "(order \<Rightarrow> bool) \<Rightarrow> string option \<Rightarrow> order \<Rightarrow> db \<Rightarrow> (error + order) \<times> db" where
  \<comment> \<open>\<open>orderSchema.methods.requestRefund\<close>; \<open>reason || '...'\<close> takes the default for
      \<open>undefined\<close> and for the empty string\<close>
  "requestRefund valid reason ord d =
     (if \<not> isPaid ord then (Inl NotPaid, d)
      else if status ord = ''refunded'' then (Inl AlreadyRefunded, d)
      else save valid False False
             (ord\<lparr>status := ''refunded'',
                  order_notes := Some (case reason of
                                        None \<Rightarrow> ''Remboursement demande''
                                      | Some r \<Rightarrow> if r = [] then ''Remboursement demande'' else r)\<rparr>)
             d)"

section \<open>Payment webhooks\<close>

record paymentIntent =
  pi_id :: string
  amount_received :: int

record event =
  event_type :: string
  event_object :: paymentIntent

fun findOneAndUpdate ::
    "(order \<Rightarrow> bool) \<Rightarrow> (order \<Rightarrow> order) \<Rightarrow> order list \<Rightarrow> order option \<times> order list" where
  \<comment> \<open>\<open>Order.findOneAndUpdate(filter, update, { new: true })\<close>: the first order that
      matches is updated and returned, \<open>null\<close> without a match. Neither the save hooks
      nor the validators run.\<close>
  "findOneAndUpdate flt upd [] = (None, [])"
| "findOneAndUpdate flt upd (x # xs) =
     (if flt x then (Some (upd x), upd x # xs)
      else (case findOneAndUpdate flt upd xs of (r, ys) \<Rightarrow> (r, x # ys)))"

definition paymentFilter :: "bool \<Rightarrow> string \<Rightarrow> order \<Rightarrow> bool" where
  \<comment> \<open>The filter \<open>{ 'paymentDetails.paymentIntentId': id }\<close> names a path that the schema
      does not declare. With Mongoose's \<open>strictQuery\<close> on (its default in version 6) the
      path is removed and the empty filter matches every order; with it off the filter
      goes to MongoDB as written. The repository sets the option nowhere and names no
      version: \<open>strictQuery\<close> is a parameter.\<close>
  "paymentFilter strictQuery pid x = (strictQuery \<or> paymentIntentId x = Some pid)"

definition handlePaymentSuccess :: "bool \<Rightarrow> paymentIntent \<Rightarrow> db \<Rightarrow> (error + unit) \<times> db" where
  \<comment> \<open>\<open>PaymentService.handlePaymentSuccess\<close>. Of the update \<open>{ paymentStatus, status,
      'paymentDetails.amountPaid' }\<close> the strict schema keeps \<open>status\<close> alone. The body of
      the \<open>try\<close> ends with \<open>logger.info\<close>, and the \<open>catch\<close> calls \<open>logger.error\<close> before
      it rethrows.\<close>
  "handlePaymentSuccess strictQuery pint d =
     (case findOneAndUpdate (paymentFilter strictQuery (pi_id pint))
                            (\<lambda>x. x\<lparr>status := ''processing''\<rparr>) (orders d) of
        (r, os) \<Rightarrow>
          let d' = d\<lparr>orders := os\<rparr>;
              body = (case r of None \<Rightarrow> Inl OrphanPayment | Some ord \<Rightarrow> logger_info)
          in (case body of
                Inl err \<Rightarrow> (case logger_error of Inl e \<Rightarrow> (Inl e, d') | Inr _ \<Rightarrow> (Inl err, d'))
              | Inr _ \<Rightarrow> (Inr (), d')))"

definition handlePaymentFailure :: "bool \<Rightarrow> paymentIntent \<Rightarrow> db \<Rightarrow> (error + unit) \<times> db" where
  \<comment> \<open>\<open>PaymentService.handlePaymentFailure\<close>: the result of the update is not looked
      at, and the status it stores is spelled \<open>canceled\<close>; \<open>paymentStatus\<close> is dropped.
      \<open>logger.warn\<close> ends the \<open>try\<close>, \<open>logger.error\<close> starts the \<open>catch\<close>.\<close>
  "handlePaymentFailure strictQuery pint d =
     (let d' = d\<lparr>orders := snd (findOneAndUpdate (paymentFilter strictQuery (pi_id pint))
                                                   (\<lambda>x. x\<lparr>status := ''canceled''\<rparr>)
                                                   (orders d))\<rparr>
      in (case logger_warn of
            Inl err \<Rightarrow> (case logger_error of Inl e \<Rightarrow> (Inl e, d') | Inr _ \<Rightarrow> (Inl err, d'))
          | Inr _ \<Rightarrow> (Inr (), d')))"

definition handleWebhook :: "bool \<Rightarrow> event \<Rightarrow> db \<Rightarrow> (error + unit) \<times> db" where
  \<comment> \<open>\<open>PaymentService.handleWebhook\<close> on the event that \<open>constructEvent\<close> returns once
      the signature has been verified; an event of another type is logged\<close>
  "handleWebhook strictQuery ev d =
     (if event_type ev = ''payment_intent.succeeded''
      then handlePaymentSuccess strictQuery (event_object ev) d
      else if event_type ev = ''payment_intent.payment_failed''
      then handlePaymentFailure strictQuery (event_object ev) d
      else (case logger_info of Inl e \<Rightarrow> (Inl e, d) | Inr _ \<Rightarrow> (Inr (), d)))"

section \<open>Example data\<close>

text \<open>
  One product with four units in stock, and the cart of user 2 holding the given lines:
  \<open>line q sz\<close> asks for \<open>q\<close> units of that product, \<open>ghost\<close> for one unit of a product
  that has been deleted.
\<close>

definition shirt :: product where
  "shirt = \<lparr>product_id = 1, product_name = ''shirt'', product_price = Finite 10, stock = 4\<rparr>"

definition cartOf :: "cartItem list \<Rightarrow> db" where
  "cartOf its = \<lparr>products = [shirt], orders = [],
                  carts = [\<lparr>cart_id = 7, cart_user = 2, cart_items = its\<rparr>]\<rparr>"

definition line :: "int \<Rightarrow> string \<Rightarrow> cartItem" where
  "line q sz = \<lparr>ci_product = 1, ci_quantity = q, ci_size = Some sz, ci_color = None\<rparr>"

definition ghost :: cartItem where
  "ghost = \<lparr>ci_product = 99, ci_quantity = 1, ci_size = Some ''S'', ci_color = None\<rparr>"

definition anyOrder :: "order \<Rightarrow> bool" where
  \<comment> \<open>a validation that the saved document passes, as the schema's does for the
      example orders (\<open>saves_pass_schema\<close>)\<close>
  "anyOrder ord = True"

text \<open>
  A second product that is out of stock, an order of user 2 for two units of the first
  and one of the second, in a given status and tied to the payment intent \<open>pi_1\<close>, and
  the database that stores this order.
\<close>

definition pants :: product where
  "pants = \<lparr>product_id = 2, product_name = ''pants'', product_price = Finite 5, stock = 0\<rparr>"

definition home :: address where
  "home = \<lparr>street = ''1 rue de la Paix'', city = ''Paris'', postalCode = ''75002'',
           country = ''France'', phone = Some ''+33 0612345678''\<rparr>"

definition orderAB :: "string \<Rightarrow> order" where
  "orderAB st =
     \<lparr>order_id = 20, order_user = 2,
      items = [\<lparr>oi_product = 1, oi_name = ''shirt'', oi_quantity = 2, oi_price = Finite 10,
                oi_size = Some ''S'', oi_color = None\<rparr>,
               \<lparr>oi_product = 2, oi_name = ''pants'', oi_quantity = 1, oi_price = Finite 5,
                oi_size = Some ''M'', oi_color = None\<rparr>],
      shippingAddress = Some home,
      paymentMethod = ''credit_card'', itemsPrice = Finite 25, taxPrice = Finite 5,
      shippingPrice = Finite 10, totalPrice = Finite 40, isPaid = False, isDelivered = False,
      status = st, order_notes = None, order_discount = None, paymentStatus = None,
      paymentIntentId = Some ''pi_1'', amountPaid = None\<rparr>"

definition shop :: "order \<Rightarrow> db" where
  "shop ord = \<lparr>products = [shirt, pants], orders = [ord], carts = []\<rparr>"

definition intent :: paymentIntent where
  "intent = \<lparr>pi_id = ''pi_1'', amount_received = 4000\<rparr>"

definition succeeded :: event where
  \<comment> \<open>the provider's events for that payment intent\<close>
  "succeeded = \<lparr>event_type = ''payment_intent.succeeded'', event_object = intent\<rparr>"

definition failed :: event where
  "failed = \<lparr>event_type = ''payment_intent.payment_failed'', event_object = intent\<rparr>"

definition paidOrder :: "string \<Rightarrow> order" where
  "paidOrder st = (orderAB st)\<lparr>isPaid := True\<rparr>"

definition pricedItem :: "rat \<Rightarrow> int \<Rightarrow> orderItem" where
  \<comment> \<open>an order line at the price written in decimal\<close>
  "pricedItem price q = \<lparr>oi_product = 1, oi_name = ''shirt'', oi_quantity = q, oi_price = fl price,
                   oi_size = None, oi_color = None\<rparr>"

section \<open>Rounding to a double\<close>

text \<open>
  \<open>ilog2\<close> is the binary exponent, and in the normal range \<open>fl\<close> rounds the quotient by
  the unit in the last place of that exponent.
\<close>

lemma ilog2_bounds:
  assumes "x \<noteq> 0"
  shows "2 powi (ilog2 x) \<le> \<bar>x\<bar> \<and> \<bar>x\<bar> < 2 powi (ilog2 x + 1)"
proof -
  obtain p q where pq: "quotient_of \<bar>x\<bar> = (p, q)" by force
  then have q: "0 < q" by (rule quotient_of_denom_pos)
  from pq have x: "\<bar>x\<bar> = of_int p / of_int q" by (rule quotient_of_div)
  from assms have "0 < \<bar>x\<bar>" by simp
  with x q have p: "0 < p" by (simp add: zero_less_divide_iff)
  define bp where "bp = bitlen p"
  define bq where "bq = bitlen q"
  from p have bp1: "1 \<le> bp" using bitlen_eq_zero_iff [of p] bitlen_nonneg [of p]
    by (simp add: bp_def)
  from q have bq1: "1 \<le> bq" using bitlen_eq_zero_iff [of q] bitlen_nonneg [of q]
    by (simp add: bq_def)
  from bitlen_bounds [OF p] have "2 ^ nat (bp - 1) \<le> p" "p < 2 ^ nat bp"
    by (simp_all add: bp_def)
  then have "(of_int (2 ^ nat (bp - 1)) :: rat) \<le> of_int p" "(of_int p :: rat) < of_int (2 ^ nat bp)"
    by (simp_all only: of_int_le_iff of_int_less_iff)
  with bp1 have P: "(2 :: rat) powi (bp - 1) \<le> of_int p" "(of_int p :: rat) < 2 powi bp"
    by (simp_all add: power_int_def)
  from bitlen_bounds [OF q] have "2 ^ nat (bq - 1) \<le> q" "q < 2 ^ nat bq"
    by (simp_all add: bq_def)
  then have "(of_int (2 ^ nat (bq - 1)) :: rat) \<le> of_int q" "(of_int q :: rat) < of_int (2 ^ nat bq)"
    by (simp_all only: of_int_le_iff of_int_less_iff)
  with bq1 have Q: "(2 :: rat) powi (bq - 1) \<le> of_int q" "(of_int q :: rat) < 2 powi bq"
    by (simp_all add: power_int_def)
  have q': "(0 :: rat) < of_int q" and p': "(0 :: rat) < of_int p" using p q by simp_all
  have "\<bar>x\<bar> < 2 powi bp / 2 powi (bq - 1)"
    unfolding x using P(2) Q(1) p' q'
    by (intro frac_less) simp_all
  also have "\<dots> = (2 :: rat) powi (bp - bq + 1)"
    using power_int_diff [of "2 :: rat" bp "bq - 1"] by (simp add: algebra_simps)
  finally have up: "\<bar>x\<bar> < 2 powi (bp - bq + 1)" .
  have "(2 :: rat) powi (bp - bq - 1) = 2 powi (bp - 1) / 2 powi bq"
    using power_int_diff [of "2 :: rat" "bp - 1" bq] by (simp add: algebra_simps)
  also have "\<dots> < \<bar>x\<bar>"
    unfolding x using P(1) Q(2) p' q'
    by (intro frac_less2) simp_all
  finally have lo: "2 powi (bp - bq - 1) < \<bar>x\<bar>" .
  have il: "ilog2 x = (if \<bar>x\<bar> < 2 powi (bp - bq) then bp - bq - 1 else bp - bq)"
    by (simp add: ilog2_def pq bp_def bq_def Let_def)
  show ?thesis
  proof (cases "\<bar>x\<bar> < 2 powi (bp - bq)")
    case True
    with il lo show ?thesis by simp
  next
    case False
    with il up show ?thesis by simp
  qed
qed

lemma ilog2_unique:
  assumes "2 powi e \<le> \<bar>x\<bar>" and "\<bar>x\<bar> < 2 powi (e + 1)"
  shows "ilog2 x = e"
proof -
  have "x \<noteq> 0"
  proof
    assume "x = 0"
    with assms(1) have "(2 :: rat) powi e \<le> 0" by simp
    moreover have "(0 :: rat) < 2 powi e" by simp
    ultimately show False by linarith
  qed
  from ilog2_bounds [OF this] have b: "2 powi (ilog2 x) \<le> \<bar>x\<bar>" "\<bar>x\<bar> < 2 powi (ilog2 x + 1)"
    by simp_all
  have "\<not> ilog2 x < e"
  proof
    assume "ilog2 x < e"
    then have "(2 :: rat) powi (ilog2 x + 1) \<le> 2 powi e"
      by (intro power_int_increasing) simp_all
    with b(2) assms(1) show False by simp
  qed
  moreover have "\<not> e < ilog2 x"
  proof
    assume "e < ilog2 x"
    then have "(2 :: rat) powi (e + 1) \<le> 2 powi (ilog2 x)"
      by (intro power_int_increasing) simp_all
    with b(1) assms(2) show False by simp
  qed
  ultimately show ?thesis by simp
qed

lemma fl_normal:
  assumes "2 powi e \<le> \<bar>x\<bar>" and "\<bar>x\<bar> < 2 powi (e + 1)" and "- 1022 \<le> e"
    and "\<bar>of_int (roundHalfEven (x / 2 powi (e - 52))) * 2 powi (e - 52)\<bar> < (2 :: rat) powi 1024"
  shows "fl x = Finite (of_int (roundHalfEven (x / 2 powi (e - 52))) * 2 powi (e - 52))"
proof -
  have nz: "x \<noteq> 0"
  proof
    assume "x = 0"
    with assms(1) have "(2 :: rat) powi e \<le> 0" by simp
    moreover have "(0 :: rat) < 2 powi e" by simp
    ultimately show False by linarith
  qed
  have "ilog2 x = e" using assms(1,2) by (rule ilog2_unique)
  moreover have "max e (- 1022) = e" using assms(3) by simp
  ultimately show ?thesis using assms(4) nz by (simp add: fl_def Let_def)
qed

lemma floor_numeral_div:
  "\<lfloor>(numeral a :: rat) / numeral b\<rfloor> = numeral a div numeral b"
  using floor_divide_of_int_eq [of "numeral a" "numeral b", where ?'a = rat] by simp

lemmas fl_eval = roundHalfEven_def Let_def floor_numeral_div

lemma fl_1: "fl 1 = Finite 1"
  using fl_normal [of 0 1] by (simp add: fl_eval)

lemma fl_3: "fl 3 = Finite 3"
  using fl_normal [of 1 3] by (simp add: fl_eval)

lemma fl_6: "fl 6 = Finite 6"
  using fl_normal [of 2 6] by (simp add: fl_eval)

lemma fl_20: "fl 20 = Finite 20"
  using fl_normal [of 4 20] by (simp add: fl_eval)

lemma fl_30: "fl 30 = Finite 30"
  using fl_normal [of 4 30] by (simp add: fl_eval)

lemma fl_36: "fl 36 = Finite 36"
  using fl_normal [of 5 36] by (simp add: fl_eval)

lemma fl_46: "fl 46 = Finite 46"
  using fl_normal [of 5 46] by (simp add: fl_eval)

lemma fl_120: "fl 120 = Finite 120"
  using fl_normal [of 6 120] by (simp add: fl_eval)

lemma fl_fifth: "fl (1 / 5) = Finite (3602879701896397 / 18014398509481984)"
  using fl_normal [of "- 3" "1 / 5"] by (simp add: fl_eval)

text \<open>The hook's arithmetic on the order of three items at 10.00.\<close>

lemma tax_of_30: "n_mul (Finite 30) (fl (1 / 5)) = Finite 6"
  using fl_normal [of 2 "30 * (3602879701896397 / 18014398509481984)"]
  by (simp add: n_mul_def fl_fifth fl_eval)

lemma hook_30:
  "sumItems [\<lparr>oi_product = i, oi_name = n, oi_quantity = 3, oi_price = Finite 10,
              oi_size = s, oi_color = c\<rparr>] = Finite 30"
  by (simp add: sumItems_def of_quantity_def n_mul_def n_add_def fl_3 fl_30)

lemma toFixed2_6: "toFixed2 (Finite 6) = Finite 6"
  by (simp add: toFixed2_def floor_numeral_div fl_6)

lemma total_46:
  "toFixed2 (n_sub (n_sub (n_add (n_add (Finite 30) (Finite 6)) (Finite 10)) (Finite 0))
                   (Finite 0)) = Finite 46"
  by (simp add: toFixed2_def n_sub_def n_add_def n_neg_def floor_numeral_div fl_36 fl_46)

text \<open>
  Three items at 21.35 and one at 35.95: the doubles add up to a little more than 100,
  where the decimals add up to 100. The order ships free, and its total is 120.
\<close>

lemma fl_2135: "fl (427 / 20) = Finite (3004745376386253 / 140737488355328)"
  using fl_normal [of 4 "427 / 20"] by (simp add: fl_eval)

lemma fl_3595: "fl (719 / 20) = Finite (2529756353187021 / 70368744177664)"
  using fl_normal [of 5 "719 / 20"] by (simp add: fl_eval)

lemma times_3:
  "n_mul (Finite (3004745376386253 / 140737488355328)) (Finite 3)
     = Finite (1126779516144845 / 17592186044416)"
  using fl_normal [of 6 "3004745376386253 / 140737488355328 * 3"]
  by (simp add: n_mul_def fl_eval)

lemma times_1:
  "n_mul (Finite (2529756353187021 / 70368744177664)) (Finite 1)
     = Finite (2529756353187021 / 70368744177664)"
  using fl_normal [of 5 "2529756353187021 / 70368744177664"]
  by (simp add: n_mul_def fl_eval)

lemma plus_0:
  "n_add (Finite 0) (Finite (1126779516144845 / 17592186044416))
     = Finite (1126779516144845 / 17592186044416)"
  using fl_normal [of 6 "1126779516144845 / 17592186044416"]
  by (simp add: n_add_def fl_eval)

lemma plus_3595:
  "n_add (Finite (1126779516144845 / 17592186044416)) (Finite (2529756353187021 / 70368744177664))
     = Finite (7036874417766401 / 70368744177664)"
  using fl_normal [of 6 "1126779516144845 / 17592186044416 + 2529756353187021 / 70368744177664"]
  by (simp add: n_add_def fl_eval)

lemma sum_over_100:
  "sumItems [pricedItem (2135 / 100) 3, pricedItem (3595 / 100) 1]
     = Finite (7036874417766401 / 70368744177664)"
  by (simp add: sumItems_def pricedItem_def of_quantity_def fl_1 fl_3 fl_2135 fl_3595
                times_3 times_1 plus_0 plus_3595)

lemma tax_over_100:
  "toFixed2 (n_mul (Finite (7036874417766401 / 70368744177664)) (fl (1 / 5))) = Finite 20"
proof -
  have "n_mul (Finite (7036874417766401 / 70368744177664)) (fl (1 / 5))
          = Finite (5629499534213121 / 281474976710656)"
    using fl_normal [of 4 "7036874417766401 / 70368744177664 * (3602879701896397 / 18014398509481984)"]
    by (simp add: n_mul_def fl_fifth fl_eval)
  then show ?thesis by (simp add: toFixed2_def floor_numeral_div fl_20)
qed

lemma total_over_100:
  "toFixed2 (n_sub (n_sub (n_add (n_add (Finite (7036874417766401 / 70368744177664)) (Finite 20))
                                 (Finite 0)) (Finite 0)) (Finite 0)) = Finite 120"
proof -
  have a: "n_add (Finite (7036874417766401 / 70368744177664)) (Finite 20)
          = Finite (8444249301319681 / 70368744177664)"
    using fl_normal [of 6 "7036874417766401 / 70368744177664 + 20"]
    by (simp add: n_add_def fl_eval)
  have b: "n_add (Finite (8444249301319681 / 70368744177664)) (Finite 0)
          = Finite (8444249301319681 / 70368744177664)"
    using fl_normal [of 6 "8444249301319681 / 70368744177664"]
    by (simp add: n_add_def fl_eval)
  show ?thesis
    by (simp add: a b n_sub_def n_neg_def toFixed2_def floor_numeral_div fl_120)
qed

lemma ships_free_over_100:
  "pre_save False False
     ((orderAB st)\<lparr>items := [pricedItem (2135 / 100) 3, pricedItem (3595 / 100) 1]\<rparr>)
   = (orderAB st)\<lparr>items := [pricedItem (2135 / 100) 3, pricedItem (3595 / 100) 1],
                  itemsPrice := Finite (7036874417766401 / 70368744177664),
                  taxPrice := Finite 20, shippingPrice := Finite 0, totalPrice := Finite 120\<rparr>"
proof -
  define its where "its = [pricedItem (2135 / 100) 3, pricedItem (3595 / 100) 1]"
  have s: "sumItems its = Finite (7036874417766401 / 70368744177664)"
    unfolding its_def by (rule sum_over_100)
  show ?thesis
    unfolding its_def [symmetric]
    by (simp add: pre_save_def Let_def s tax_over_100 total_over_100 n_less_def
                  fixedDiscount_def percentageDiscount_def orderAB_def)
qed

section \<open>Stock after a bulk write\<close>

lemma findProduct_updateOne_inc:
  "findProduct j (updateOne_inc i n ps) =
     map_option (\<lambda>p. if i = j then p\<lparr>stock := stock p + n\<rparr> else p) (findProduct j ps)"
  by (induction ps) (auto simp: findProduct_def option.map_ident)

lemma stock_updateOne_inc:
  "map_option stock (findProduct j (updateOne_inc i n ps)) =
     map_option (\<lambda>s. s + (if i = j then n else 0)) (map_option stock (findProduct j ps))"
  by (simp add: findProduct_updateOne_inc option.map_comp comp_def cong: option.map_cong)

lemma stock_bulkWrite:
  "map_option stock (findProduct j (bulkWrite ops ps)) =
     map_option (\<lambda>s. s + ordered j ops) (map_option stock (findProduct j ps))"
proof (induction ops arbitrary: ps)
  case Nil
  then show ?case by (simp add: bulkWrite_def ordered_def option.map_ident)
next
  case (Cons a ops)
  obtain i n where a: "a = (i, n)" by (cases a)
  have "bulkWrite (a # ops) ps = bulkWrite ops (updateOne_inc i n ps)"
    by (simp add: bulkWrite_def a)
  then show ?case
    using Cons.IH [of "updateOne_inc i n ps"]
    by (cases "findProduct j ps") (auto simp: stock_updateOne_inc a ordered_def)
qed

section \<open>Checkout never completes\<close>

lemma validateStock_overstock:
  assumes "\<forall>x \<in> set its. findProduct (ci_product x) ps \<noteq> None"
    and "y \<in> set its" and "findProduct (ci_product y) ps = Some p"
    and "stock p < ci_quantity y"
  shows "\<exists>n s q. validateStock ps its = Inl (InsufficientStock n s q)"
  using assms
proof (induction its)
  case Nil
  then show ?case by simp
next
  case (Cons a its)
  then show ?case by (auto split: option.splits sum.splits)
qed

lemma draftOrder_rejected: "\<not> orderSchema (draftOrder newId user pm populated)"
  by (simp add: orderSchema_def draftOrder_def Let_def)

lemma Order_create_draft:
  "Order_create (draftOrder newId user pm populated) d = (Inl ValidationError, d)"
  by (simp add: Order_create_def draftOrder_rejected)

lemma createOrder_fails: "\<exists>e. createOrder newId user pm d = (Inl e, d)"
  by (auto simp: createOrder_def Order_create_draft split: option.splits sum.splits)

lemma createOrder_overstock:
  assumes "findCart user (carts d) = Some c"
    and "\<forall>x \<in> set (cart_items c). findProduct (ci_product x) (products d) \<noteq> None"
    and "y \<in> set (cart_items c)" and "findProduct (ci_product y) (products d) = Some p"
    and "stock p < ci_quantity y"
  shows "\<exists>n s q. createOrder newId user pm d = (Inl (InsufficientStock n s q), d)"
proof -
  from assms(3) have ne: "cart_items c \<noteq> []" by auto
  from validateStock_overstock [OF assms(2-5)] obtain n s q where
    "validateStock (products d) (cart_items c) = Inl (InsufficientStock n s q)" by blast
  with assms(1) ne show ?thesis by (simp add: createOrder_def)
qed

lemma createOrder_in_stock:
  assumes "findCart user (carts d) = Some c" and "cart_items c \<noteq> []"
    and "validateStock (products d) (cart_items c) = Inr populated"
  shows "createOrder newId user pm d = (Inl ValidationError, d)"
  using assms by (simp add: createOrder_def Order_create_draft)

lemmas model_defs = createOrder_def Order_create_draft bulkWrite_def stockOf_def
  findCart_def findProduct_def cartOf_def line_def ghost_def shirt_def cartLines_def ordered_def
  logger_info_def logger_warn_def logger_error_def

lemmas admin_defs = updateOrderStatus_def deleteOrder_def cancelOrder_def requestRefund_def
  save_def validStatuses_def findOrder_def orderLines_def handlePaymentSuccess_def
  handlePaymentFailure_def handleWebhook_def paymentFilter_def updateStock_def pre_save_def Let_def
  pants_def orderAB_def shop_def intent_def anyOrder_def succeeded_def failed_def paidOrder_def

text \<open>
  Claim C1 says that a checkout fails with the insufficient-stock error, changing nothing,
  when a cart line asks for more than the stock, and that a checkout that succeeds has
  created one order, taken the ordered quantities from the stock and emptied the cart.
  \<open>createOrder\<close> never succeeds. The document it hands to \<open>Order.create\<close> has no
  \<open>shippingAddress\<close>, which the schema requires: whatever the cart, a checkout that
  passes the stock check ends with the validation error, and no order is created, no
  stock is taken, the cart stays (\<open>createOrder_fails\<close>, \<open>createOrder_in_stock\<close>). The
  stock check itself reads \<open>item.product._id\<close> of each populated line: a cart that holds a
  line of a deleted product before a line that asks for five of the four shirts ends with
  a \<open>TypeError\<close>, not with the insufficient-stock error. (With every product of the cart
  in place the error is the insufficient-stock error: \<open>createOrder_overstock\<close>.)
\<close>

theorem createOrder_never_succeeds:
  "(\<exists>e. createOrder newId user pm d = (Inl e, d)) \<and>
   createOrder 9 2 ''paypal'' (cartOf [ghost, line 5 ''S''])
     = (Inl TypeError, cartOf [ghost, line 5 ''S'']) \<and>
   stockOf (cartOf [line 2 ''M'']) 1 = Some 4 \<and>
   createOrder 9 2 ''paypal'' (cartOf [line 2 ''M''])
     = (Inl ValidationError, cartOf [line 2 ''M''])"
  using createOrder_fails [of newId user pm d] by (simp add: model_defs)

section \<open>Prices of the order that checkout builds\<close>

text \<open>
  Claim C5 says that the checkout of a cart with one line of three items at 10.00 creates
  an order with subtotal 30.00, tax 6.00, shipping 10.00 and total 46.00. The cart
  passes the stock check; the document built from it is rejected by the schema for its
  missing \<open>shippingAddress\<close>, and \<open>createOrder\<close> ends with the validation error: no
  order is stored, the stock and the cart are what they were. The \<open>pre('save')\<close> hook
  never runs on the document; run on it, the hook computes the four prices of the claim.
\<close>

theorem createOrder_example_rejected:
  "validateStock (products (cartOf [line 3 ''S''])) [line 3 ''S''] = Inr [(line 3 ''S'', shirt)] \<and>
   \<not> orderSchema (draftOrder 9 2 ''paypal'' [(line 3 ''S'', shirt)]) \<and>
   createOrder 9 2 ''paypal'' (cartOf [line 3 ''S''])
     = (Inl ValidationError, cartOf [line 3 ''S'']) \<and>
   itemsPrice (pre_save False False (draftOrder 9 2 ''paypal'' [(line 3 ''S'', shirt)])) = Finite 30 \<and>
   taxPrice (pre_save False False (draftOrder 9 2 ''paypal'' [(line 3 ''S'', shirt)])) = Finite 6 \<and>
   shippingPrice (pre_save False False (draftOrder 9 2 ''paypal'' [(line 3 ''S'', shirt)])) = Finite 10 \<and>
   totalPrice (pre_save False False (draftOrder 9 2 ''paypal'' [(line 3 ''S'', shirt)])) = Finite 46"
proof -
  have "items (draftOrder 9 2 ''paypal'' [(line 3 ''S'', shirt)]) =
          [\<lparr>oi_product = 1, oi_name = ''shirt'', oi_quantity = 3, oi_price = Finite 10,
            oi_size = Some ''S'', oi_color = None\<rparr>]"
    and "order_discount (draftOrder 9 2 ''paypal'' [(line 3 ''S'', shirt)]) = None"
    by (simp_all add: draftOrder_def Let_def orderItemOf_def line_def shirt_def)
  then have
    "itemsPrice (pre_save False False (draftOrder 9 2 ''paypal'' [(line 3 ''S'', shirt)])) = Finite 30"
    "taxPrice (pre_save False False (draftOrder 9 2 ''paypal'' [(line 3 ''S'', shirt)])) = Finite 6"
    "shippingPrice (pre_save False False (draftOrder 9 2 ''paypal'' [(line 3 ''S'', shirt)])) = Finite 10"
    "totalPrice (pre_save False False (draftOrder 9 2 ''paypal'' [(line 3 ''S'', shirt)])) = Finite 46"
    by (simp_all add: pre_save_def Let_def hook_30 tax_of_30 toFixed2_6 total_46 n_less_def
                      fixedDiscount_def percentageDiscount_def)
  moreover have
    "validateStock (products (cartOf [line 3 ''S''])) [line 3 ''S''] = Inr [(line 3 ''S'', shirt)]"
    "createOrder 9 2 ''paypal'' (cartOf [line 3 ''S'']) = (Inl ValidationError, cartOf [line 3 ''S''])"
    by (simp_all add: model_defs)
  ultimately show ?thesis using draftOrder_rejected [of 9 2 "''paypal''" "[(line 3 ''S'', shirt)]"]
    by blast
qed

section \<open>Stock below zero\<close>

lemma updateStock_decrement:
  "0 \<le> q \<Longrightarrow>
     stockOf (snd (updateStock ''decrement'' q i d)) i = map_option (\<lambda>s. s - q) (stockOf d i)"
  by (cases "findProduct i (products d)")
     (simp_all add: updateStock_def Let_def stockOf_def findProduct_updateOne_inc logger_info_def)

lemma lines_checked_alone:
  "validateStock [shirt] [line 3 ''S'', line 3 ''M'']
     = Inr [(line 3 ''S'', shirt), (line 3 ''M'', shirt)] \<and>
   map stock (bulkWrite [(1, - 3), (1, - 3)] [shirt]) = [- 2]"
  by (simp add: model_defs)

text \<open>
  Claim C9 says that every operation keeps each product's stock non-negative, a
  decrement beyond the stock failing with the insufficient-stock error. The product
  schema declares \<open>min: [0, 'Le stock ne peut pas etre negatif']\<close>, and the admin's
  \<open>updateStock\<close> refuses a negative quantity. Its \<open>decrement\<close> compares the quantity with
  nothing: it sends \<open>$inc: { stock: -quantity }\<close> through \<open>findByIdAndUpdate\<close>, on which no
  validator runs. Five units taken from the four shirts leave the stock at \<open>-1\<close>; the
  answer is the logger's \<open>TypeError\<close>, and the write stays. (The checkout writes no stock
  at all, \<open>createOrder_fails\<close>; its stock check takes each line alone, so that its bulk
  write would take two lines of three shirts from a stock of four:
  \<open>lines_checked_alone\<close>.)
\<close>

theorem updateStock_negative:
  "stockOf (cartOf []) 1 = Some 4 \<and>
   updateStock ''decrement'' 5 1 (cartOf [])
     = (Inl TypeError, (cartOf [])\<lparr>products := [shirt\<lparr>stock := - 1\<rparr>]\<rparr>) \<and>
   stockOf (snd (updateStock ''decrement'' 5 1 (cartOf []))) 1 = Some (- 1)"
  by (simp add: model_defs updateStock_def Let_def)

section \<open>What the webhook handlers do\<close>

lemma findOneAndUpdate_fst:
  "fst (findOneAndUpdate flt upd xs) = map_option upd (find flt xs)"
  by (induction xs) (auto split: prod.splits)

lemma findOneAndUpdate_None:
  "find flt xs = None \<Longrightarrow> findOneAndUpdate flt upd xs = (None, xs)"
  by (induction xs) (auto split: if_splits)



lemma findOneAndUpdate_frame:
  assumes "\<And>x. f (upd x) = f x"
  shows "map f (snd (findOneAndUpdate flt upd xs)) = map f xs"
  by (induction xs) (auto simp: assms split: prod.splits)





lemma handlePaymentSuccess_throws: "fst (handlePaymentSuccess q pint d) = Inl TypeError"
  by (simp add: handlePaymentSuccess_def Let_def logger_info_def logger_error_def
           split: prod.splits option.splits)

lemma handlePaymentSuccess_amount:
  "map amountPaid (orders (snd (handlePaymentSuccess q pint d))) = map amountPaid (orders d)"
proof -
  obtain r os where r: "findOneAndUpdate (paymentFilter q (pi_id pint))
                          (\<lambda>x. x\<lparr>status := ''processing''\<rparr>) (orders d) = (r, os)"
    by fastforce
  have "map amountPaid (snd (findOneAndUpdate (paymentFilter q (pi_id pint))
                               (\<lambda>x. x\<lparr>status := ''processing''\<rparr>) (orders d)))
          = map amountPaid (orders d)"
    by (rule findOneAndUpdate_frame) simp
  with r have "map amountPaid os = map amountPaid (orders d)" by simp
  with r show ?thesis
    by (cases r) (simp_all add: handlePaymentSuccess_def Let_def logger_info_def logger_error_def)
qed

text \<open>
  Claim C7 says that \<open>handlePaymentSuccess\<close> signals an orphan-payment error when no order
  matches, and otherwise sets the order to \<open>processing\<close> and records the amount captured,
  leaving the stock alone. The handler does set the matched order to \<open>processing\<close> and
  writes no product. It records no amount: \<open>paymentStatus\<close> and
  \<open>paymentDetails.amountPaid\<close> are not paths of the order schema, and the strict schema
  drops them from the update (\<open>handlePaymentSuccess_amount\<close>). And it signals no
  orphan payment: the error it throws for a missing order is caught by its own
  \<open>catch\<close>, whose first statement, \<open>logger.error\<close>, throws a \<open>TypeError\<close>; so does
  \<open>logger.info\<close> after a match (\<open>handlePaymentSuccess_throws\<close>). The pending order tied
  to \<open>pi_1\<close>, alone in the collection, matches with \<open>strictQuery\<close> on and off.
\<close>

theorem handlePaymentSuccess_drops_amount:
  "amount_received intent = 4000 \<and>
   handlePaymentSuccess q intent (shop (orderAB ''pending''))
     = (Inl TypeError, shop (orderAB ''processing'')) \<and>
   amountPaid (orderAB ''processing'') = None \<and>
   paymentStatus (orderAB ''processing'') = None \<and>
   handlePaymentSuccess q intent (cartOf []) = (Inl TypeError, cartOf []) \<and>
   handlePaymentSuccess False (intent\<lparr>pi_id := ''pi_2''\<rparr>) (shop (orderAB ''pending''))
     = (Inl TypeError, shop (orderAB ''pending''))"
  by (cases q) (simp_all add: model_defs admin_defs)



text \<open>
  Claim C2 says that a \<open>failed\<close> event sets the order's status to \<open>cancelled\<close> and puts
  the order's quantities back into stock. \<open>handlePaymentFailure\<close> stores the status
  \<open>canceled\<close>, which is not a value of the schema's enumeration, and writes no product:
  the pending order for two shirts and one pair of pants leaves the stock at 4 and 0.
  The handler ends with the logger's \<open>TypeError\<close>.
\<close>

theorem handlePaymentFailure_keeps_stock:
  "stockOf (shop (orderAB ''pending'')) 1 = Some 4 \<and>
   stockOf (shop (orderAB ''pending'')) 2 = Some 0 \<and>
   fst (handlePaymentFailure q intent (shop (orderAB ''pending''))) = Inl TypeError \<and>
   map status (orders (snd (handlePaymentFailure q intent (shop (orderAB ''pending''))))) = [''canceled''] \<and>
   stockOf (snd (handlePaymentFailure q intent (shop (orderAB ''pending'')))) 1 = Some 4 \<and>
   stockOf (snd (handlePaymentFailure q intent (shop (orderAB ''pending'')))) 2 = Some 0"
  by (cases q) (simp_all add: model_defs admin_defs)

section \<open>Saving a stored order\<close>

text \<open>
  The example orders are documents that the schema accepts, also after the changes that
  the operations below make before they save: with the schema's validation for \<open>valid\<close>
  these operations do what they do with a validation that passes.
\<close>

lemmas schema_defs = orderSchema_def validItem_def validAddress_def phoneValid_def prefixed_def
  digits10_def isDigit_def min0_def home_def

lemma stored_order_valid:
  "orderSchema (orderAB ''pending'') \<and> orderSchema (orderAB ''shipped'') \<and>
   orderSchema (orderAB ''cancelled'') \<and> orderSchema (paidOrder ''delivered'')"
  by (simp add: schema_defs orderAB_def paidOrder_def)

lemma saves_pass_schema:
  "updateOrderStatus orderSchema ''cancelled'' 20 (shop (orderAB ''shipped''))
     = updateOrderStatus anyOrder ''cancelled'' 20 (shop (orderAB ''shipped'')) \<and>
   cancelOrder orderSchema (orderAB ''pending'') (shop (orderAB ''pending''))
     = cancelOrder anyOrder (orderAB ''pending'') (shop (orderAB ''pending'')) \<and>
   requestRefund orderSchema None (paidOrder ''delivered'') (shop (paidOrder ''delivered''))
     = requestRefund anyOrder None (paidOrder ''delivered'') (shop (paidOrder ''delivered''))"
  by (simp add: schema_defs updateOrderStatus_def cancelOrder_def requestRefund_def save_def
                validStatuses_def findOrder_def anyOrder_def orderAB_def paidOrder_def shop_def)

lemma save_products: "products (snd (save valid a b ord d)) = products d"
  by (simp add: save_def Let_def split: option.splits)

lemma pre_save_id: "order_id (pre_save a b ord) = order_id ord"
  by (simp add: pre_save_def Let_def)

lemma pre_save_status: "status (pre_save False False ord) = status ord"
  by (simp add: pre_save_def Let_def)

lemma replaceOrder_find:
  "replaceOrder ord xs = Some ys \<Longrightarrow> findOrder (order_id ord) ys = Some ord"
  by (induction xs arbitrary: ys) (auto simp: findOrder_def split: if_splits)

lemma replaceOrder_stored:
  "findOrder (order_id ord) xs \<noteq> None \<Longrightarrow> replaceOrder ord xs \<noteq> None"
  by (induction xs) (auto simp: findOrder_def)

lemma save_Inr:
  "save valid a b ord d = (Inr ord', d') \<Longrightarrow>
     valid ord \<and> ord' = pre_save a b ord \<and> products d' = products d \<and> carts d' = carts d \<and>
     findOrder (order_id ord) (orders d') = Some ord'"
  by (auto simp: save_def Let_def pre_save_id split: if_splits option.splits
           dest: replaceOrder_find)

lemma save_succeeds:
  "valid ord \<Longrightarrow> findOrder (order_id ord) (orders d) \<noteq> None \<Longrightarrow>
     \<not> isl (fst (save valid a b ord d))"
  using replaceOrder_stored [of "pre_save a b ord" "orders d"]
  by (auto simp: save_def Let_def pre_save_id split: option.splits)

section \<open>Refunds\<close>

text \<open>
  Claim C8. \<open>requestRefund\<close>, called on an order as it was loaded, fails on an order that
  is not paid and fails on a paid order that is already refunded, changing nothing. When
  it succeeds the order was paid and not yet refunded, the stored order has the status
  \<open>refunded\<close>, and the stock of every product is what it was. It does succeed on a
  paid, not yet refunded, stored order whenever the schema validation passes.
\<close>

theorem requestRefund_paid_only:
  "(\<not> isPaid ord \<longrightarrow> requestRefund valid reason ord d = (Inl NotPaid, d)) \<and>
   (isPaid ord \<and> status ord = ''refunded''
      \<longrightarrow> requestRefund valid reason ord d = (Inl AlreadyRefunded, d)) \<and>
   (requestRefund valid reason ord d = (Inr ord', d')
      \<longrightarrow> isPaid ord \<and> status ord \<noteq> ''refunded'' \<and> status ord' = ''refunded'' \<and>
          findOrder (order_id ord) (orders d') = Some ord' \<and>
          (\<forall>i. stockOf d' i = stockOf d i)) \<and>
   (isPaid ord \<and> status ord \<noteq> ''refunded'' \<and> (\<forall>x. valid x) \<and>
    findOrder (order_id ord) (orders d) \<noteq> None
      \<longrightarrow> \<not> isl (fst (requestRefund valid reason ord d)))"
proof -
  have 1: "\<not> isPaid ord \<longrightarrow> requestRefund valid reason ord d = (Inl NotPaid, d)"
    by (simp add: requestRefund_def)
  have 2: "isPaid ord \<and> status ord = ''refunded''
      \<longrightarrow> requestRefund valid reason ord d = (Inl AlreadyRefunded, d)"
    by (simp add: requestRefund_def)
  have 3: "isPaid ord \<and> status ord \<noteq> ''refunded'' \<and> status ord' = ''refunded'' \<and>
          findOrder (order_id ord) (orders d') = Some ord' \<and>
          (\<forall>i. stockOf d' i = stockOf d i)"
    if a: "requestRefund valid reason ord d = (Inr ord', d')"
  proof -
    from a have p: "isPaid ord" and r: "status ord \<noteq> ''refunded''"
      by (auto simp: requestRefund_def split: if_splits)
    let ?o = "ord\<lparr>status := ''refunded'',
                    order_notes := Some (case reason of
                                          None \<Rightarrow> ''Remboursement demande''
                                        | Some r \<Rightarrow> if r = [] then ''Remboursement demande'' else r)\<rparr>"
    from a p r have "save valid False False ?o d = (Inr ord', d')"
      by (simp add: requestRefund_def)
    from save_Inr [OF this] have "ord' = pre_save False False ?o" "products d' = products d"
      "findOrder (order_id ord) (orders d') = Some ord'" by simp_all
    then have "status ord' = ''refunded''" "findOrder (order_id ord) (orders d') = Some ord'"
      "\<forall>i. stockOf d' i = stockOf d i"
      by (simp_all add: pre_save_status stockOf_def)
    with p r show ?thesis by blast
  qed
  have 4: "isPaid ord \<and> status ord \<noteq> ''refunded'' \<and> (\<forall>x. valid x) \<and>
    findOrder (order_id ord) (orders d) \<noteq> None
      \<longrightarrow> \<not> isl (fst (requestRefund valid reason ord d))"
    using save_succeeds [of valid _ d False False]
    by (simp add: requestRefund_def)
  from 1 2 3 4 show ?thesis by blast
qed

theorem requestRefund_paid_only_witness:
  "\<not> isPaid (orderAB ''delivered'') \<and>
   requestRefund anyOrder None (orderAB ''delivered'') (shop (orderAB ''delivered''))
     = (Inl NotPaid, shop (orderAB ''delivered'')) \<and>
   isPaid (paidOrder ''refunded'') \<and>
   requestRefund anyOrder None (paidOrder ''refunded'') (shop (paidOrder ''refunded''))
     = (Inl AlreadyRefunded, shop (paidOrder ''refunded'')) \<and>
   isPaid (paidOrder ''delivered'') \<and>
   \<not> isl (fst (requestRefund anyOrder None (paidOrder ''delivered'') (shop (paidOrder ''delivered'')))) \<and>
   map status (orders (snd (requestRefund anyOrder None (paidOrder ''delivered'') (shop (paidOrder ''delivered'')))))
     = [''refunded''] \<and>
   products (snd (requestRefund anyOrder None (paidOrder ''delivered'') (shop (paidOrder ''delivered''))))
     = [shirt, pants]"
  using requestRefund_paid_only [of "orderAB ''delivered''" anyOrder None "shop (orderAB ''delivered'')"]
        requestRefund_paid_only [of "paidOrder ''refunded''" anyOrder None "shop (paidOrder ''refunded'')"]
        requestRefund_paid_only [of "paidOrder ''delivered''" anyOrder None "shop (paidOrder ''delivered'')"
           "projr (fst (requestRefund anyOrder None (paidOrder ''delivered'') (shop (paidOrder ''delivered''))))"
           "snd (requestRefund anyOrder None (paidOrder ''delivered'') (shop (paidOrder ''delivered'')))"]
  by (simp add: admin_defs model_defs)

section \<open>Cancelling\<close>

lemma updateOrderStatus_cancel_releases:
  "findOrder i (orders d) = Some ord \<Longrightarrow>
     stockOf (snd (updateOrderStatus valid ''cancelled'' i d)) j =
       map_option (\<lambda>s. s + ordered j (orderLines ord)) (stockOf d j)"
proof -
  assume a: "findOrder i (orders d) = Some ord"
  let ?d1 = "d\<lparr>products := bulkWrite (orderLines ord) (products d)\<rparr>"
  have "products (snd (updateOrderStatus valid ''cancelled'' i d)) =
        products (snd (save valid False False (ord\<lparr>status := ''cancelled''\<rparr>) ?d1))"
    using a by (simp add: updateOrderStatus_def validStatuses_def Let_def logger_info_def
                     split: prod.splits sum.splits)
  then show ?thesis by (simp add: stockOf_def save_products stock_bulkWrite)
qed

lemma cancelOrder_shipped:
  "status ord = ''shipped'' \<or> status ord = ''delivered'' \<Longrightarrow>
     cancelOrder valid ord d = (Inl AlreadyShipped, d)"
  by (auto simp: cancelOrder_def)

lemma cancelOrder_products: "products (snd (cancelOrder valid ord d)) = products d"
  by (simp add: cancelOrder_def save_products)

text \<open>
  Claim C3 says that cancelling a shipped order fails and changes neither the status nor
  any stock. The schema method \<open>cancelOrder\<close> does refuse (\<open>cancelOrder_shipped\<close>). The
  admin operation \<open>updateOrderStatus\<close> does not look at the current status: asked for
  \<open>cancelled\<close> on the shipped order, it adds the order's quantities to the stock, 4 to 6
  and 0 to 1, and stores \<open>cancelled\<close>. Only then does it end, with the logger's
  \<open>TypeError\<close>.
\<close>

theorem updateOrderStatus_cancels_shipped:
  "fst (updateOrderStatus anyOrder ''cancelled'' 20 (shop (orderAB ''shipped''))) = Inl TypeError \<and>
   map status (orders (snd (updateOrderStatus anyOrder ''cancelled'' 20 (shop (orderAB ''shipped''))))) = [''cancelled''] \<and>
   stockOf (shop (orderAB ''shipped'')) 1 = Some 4 \<and>
   stockOf (snd (updateOrderStatus anyOrder ''cancelled'' 20 (shop (orderAB ''shipped'')))) 1 = Some 6 \<and>
   stockOf (snd (updateOrderStatus anyOrder ''cancelled'' 20 (shop (orderAB ''shipped'')))) 2 = Some 1"
  by (simp add: model_defs admin_defs)

text \<open>
  Claim C6 says that cancelling a pending or processing order adds each line's quantity
  back to the stock. \<open>updateOrderStatus\<close> does (\<open>updateOrderStatus_cancel_releases\<close>). The
  schema method \<open>cancelOrder\<close> stores the status \<open>cancelled\<close> and writes no product
  (\<open>cancelOrder_products\<close>): on the pending order the stock stays at 4 and 0.
\<close>

theorem cancelOrder_keeps_stock:
  "\<not> isl (fst (cancelOrder anyOrder (orderAB ''pending'') (shop (orderAB ''pending'')))) \<and>
   map status (orders (snd (cancelOrder anyOrder (orderAB ''pending'') (shop (orderAB ''pending''))))) = [''cancelled''] \<and>
   stockOf (shop (orderAB ''pending'')) 1 = Some 4 \<and>
   stockOf (snd (cancelOrder anyOrder (orderAB ''pending'') (shop (orderAB ''pending'')))) 1 = Some 4 \<and>
   stockOf (snd (cancelOrder anyOrder (orderAB ''pending'') (shop (orderAB ''pending'')))) 2 = Some 0"
  by (simp add: model_defs admin_defs)

section \<open>Deleting an order\<close>

lemma findOrder_id: "findOrder i os = Some ord \<Longrightarrow> order_id ord = i"
  by (induction os) (auto simp: findOrder_def split: if_splits)

text \<open>
  Claim C10. \<open>deleteOrder\<close> on a stored order removes the order and adds to the stock of
  every product the quantity that the order's lines hold of it. The order's status is
  not read: a cancelled order is restocked like any other. The answer, built after the
  writes, is the logger's \<open>TypeError\<close>. The schema's \<open>pre('remove')\<close> hook writes the same
  increments, again without reading the status.
\<close>

theorem deleteOrder_restocks:
  "findOrder i (orders d) = Some ord \<longrightarrow>
     fst (deleteOrder i d) = Inl TypeError \<and>
     (\<forall>j. stockOf (snd (deleteOrder i d)) j =
            map_option (\<lambda>s. s + ordered j (orderLines ord)) (stockOf d j)) \<and>
     orders (snd (deleteOrder i d)) = deleteOne i (orders d) \<and>
     (\<forall>j. stockOf (pre_remove ord d) j =
            map_option (\<lambda>s. s + ordered j (orderLines ord)) (stockOf d j))"
  by (auto simp: deleteOrder_def pre_remove_def Let_def stockOf_def stock_bulkWrite logger_info_def
           dest: findOrder_id)

theorem deleteOrder_restocks_witness:
  "findOrder 20 (orders (shop (orderAB ''cancelled''))) = Some (orderAB ''cancelled'') \<and>
   stockOf (shop (orderAB ''cancelled'')) 1 = Some 4 \<and>
   stockOf (shop (orderAB ''cancelled'')) 2 = Some 0 \<and>
   fst (deleteOrder 20 (shop (orderAB ''cancelled''))) = Inl TypeError \<and>
   stockOf (snd (deleteOrder 20 (shop (orderAB ''cancelled'')))) 1 = Some 6 \<and>
   stockOf (snd (deleteOrder 20 (shop (orderAB ''cancelled'')))) 2 = Some 1 \<and>
   orders (snd (deleteOrder 20 (shop (orderAB ''cancelled'')))) = [] \<and>
   stockOf (pre_remove (orderAB ''cancelled'') (shop (orderAB ''cancelled''))) 1 = Some 6"
  using deleteOrder_restocks [of 20 "shop (orderAB ''cancelled'')" "orderAB ''cancelled''"]
  by (simp add: admin_defs model_defs pre_remove_def)

end
